theory Spec2Isabelle
  imports Main "HOL-Library.Sublist"
begin

section \<open>JavaScript values used by the two components\<close>

text \<open>
  A JavaScript string is a \<^typ>\<open>string\<close>: a list of characters, the character with code
  \<open>n\<close> standing for the code unit \<open>U+00n\<close> (\<open>0 \<le> n \<le> 255\<close>). A value that may be
  \<open>undefined\<close> is an \<open>option\<close>. The declared types are taken as they stand: the
  parameter \<open>options\<close> is an object or \<open>undefined\<close>. The two required strings
  \<open>version\<close> and \<open>signature\<close> are held in the same optional type as every other string
  field, a caller passing \<open>Some\<close> of the string; \<open>toString\<close> tests them with \<open>!value\<close> like
  the others.
\<close>

subsection \<open>\<open>encodeURIComponent\<close>\<close>

text \<open>
  The built-in leaves the characters \<open>A-Z a-z 0-9 - _ . ! ~ * ' ( )\<close> as they are and
  replaces every other character by the UTF-8 bytes of its code point, each written as
  \<open>%XX\<close> with upper-case hexadecimal digits. A code point below \<open>U+0080\<close> is one byte,
  one from \<open>U+0080\<close> to \<open>U+00FF\<close> is two.
\<close>

definition unreserved :: "char \<Rightarrow> bool" where
  "unreserved c \<longleftrightarrow>
     c \<in> set ''ABCDEFGHIJKLMNOPQRSTUVWXYZ'' \<or>
     c \<in> set ''abcdefghijklmnopqrstuvwxyz'' \<or>
     c \<in> set ''0123456789'' \<or>
     c \<in> set ''-_.!~*()'' \<or> c = CHR 0x27"

definition hexDigit :: "nat \<Rightarrow> char" where
  "hexDigit n = ''0123456789ABCDEF'' ! (n mod 16)"

definition percentByte :: "nat \<Rightarrow> string" where
  "percentByte b = [CHR ''%'', hexDigit (b div 16), hexDigit (b mod 16)]"

definition utf8Bytes :: "nat \<Rightarrow> nat list" where
  "utf8Bytes n = (if n < 128 then [n] else [192 + n div 64, 128 + n mod 64])"

definition encodeChar :: "char \<Rightarrow> string" where
  "encodeChar c =
     (if unreserved c then [c] else concat (map percentByte (utf8Bytes (of_char c))))"

definition encodeURIComponent :: "string \<Rightarrow> string" where
  "encodeURIComponent s = concat (map encodeChar s)"

subsection \<open>\<open>String.prototype.includes\<close> and \<open>Array.prototype.join\<close>\<close>

text \<open>\<open>includes' s sub\<close> is \<open>s.includes(sub)\<close>: \<open>sub\<close> occurs in \<open>s\<close> at some position.\<close>

fun includes' :: "string \<Rightarrow> string \<Rightarrow> bool" where
  "includes' [] sub = (sub = [])"
| "includes' (c # cs) sub = (prefix sub (c # cs) \<or> includes' cs sub)"

fun join :: "string \<Rightarrow> string list \<Rightarrow> string" where
  "join sep [] = []"
| "join sep [x] = x"
| "join sep (x # y # ys) = x @ sep @ join sep (y # ys)"

subsection \<open>\<open>Date\<close> and \<open>Date.prototype.toISOString\<close>\<close>

text \<open>
  A \<open>Date\<close> holds its time value, the milliseconds since 1970-01-01T00:00:00Z. (An
  invalid \<open>Date\<close>, whose time value is \<open>NaN\<close>, is not a value of this type.) The
  calendar date of a day number is computed with the usual era arithmetic of the
  proleptic Gregorian calendar: eras of 400 years (146097 days) that start on 1 March.
\<close>

datatype Date = Date (getTime: int)

definition civilFromDays :: "int \<Rightarrow> int \<times> int \<times> int" where
  "civilFromDays days =
     (let z = days + 719468;
          era = z div 146097;
          doe = z mod 146097;
          yoe = (doe - doe div 1460 + doe div 36524 - doe div 146096) div 365;
          doy = doe - (365 * yoe + yoe div 4 - yoe div 100);
          mp = (5 * doy + 2) div 153;
          d = doy - (153 * mp + 2) div 5 + 1;
          m = (if mp < 10 then mp + 3 else mp - 9);
          y = yoe + era * 400 + (if m \<le> 2 then 1 else 0)
      in (y, m, d))"

definition digit :: "nat \<Rightarrow> char" where
  "digit n = ''0123456789'' ! (n mod 10)"

fun pad :: "nat \<Rightarrow> nat \<Rightarrow> string" where
  "pad 0 n = []"
| "pad (Suc k) n = pad k (n div 10) @ [digit n]"

definition isoYear :: "int \<Rightarrow> string" where
  "isoYear y =
     (if 0 \<le> y \<and> y \<le> 9999 then pad 4 (nat y)
      else (if y < 0 then ''-'' else ''+'') @ pad 6 (nat \<bar>y\<bar>))"

definition isoDate :: "Date \<Rightarrow> string" where
  "isoDate date =
     (case civilFromDays (getTime date div 86400000) of
        (y, m, d) \<Rightarrow> isoYear y @ ''-'' @ pad 2 (nat m) @ ''-'' @ pad 2 (nat d))"

definition isoTime :: "Date \<Rightarrow> string" where
  "isoTime date =
     (let ms = nat (getTime date mod 86400000)
      in pad 2 (ms div 3600000) @ '':'' @ pad 2 (ms div 60000 mod 60) @ '':'' @
         pad 2 (ms div 1000 mod 60))"

definition isoMillis :: "Date \<Rightarrow> string" where
  "isoMillis date = pad 3 (nat (getTime date mod 1000))"

definition toISOString :: "Date \<Rightarrow> string" where
  "toISOString date =
     isoDate date @ ''T'' @ isoTime date @ ''.'' @ isoMillis date @ ''Z''"

text \<open>
  Modelled from the spec: \<open>truncatedISO8061Date\<close> of
  \<open>utils/truncateISO8061Date.ts\<close> is not among the sources. The spec has timestamps
  ``rendered through a truncated ISO-8601 encoder (date-time truncated to whole seconds,
  no fractional component)'', ``second precision'': the ISO string without its last five
  characters \<open>.sssZ\<close>, closed by \<open>Z\<close>. Every call in \<open>toString\<close> passes \<open>false\<close>
  as the second argument, and the model is that call.
\<close>

definition truncatedISO8061Date :: "Date \<Rightarrow> string" where
  "truncatedISO8061Date date =
     (let dateString = toISOString date
      in take (length dateString - 5) dateString @ ''Z'')"

section \<open>IP range codec\<close>

text \<open>
  Modelled from the spec: the interface \<open>SasIPRange\<close> and the function
  \<open>ipRangeToString\<close> of \<open>sas/sasIPRange.ts\<close> are not among the sources. The spec
  describes ``a start/end pair of IP-address strings'' and the rule ``if end is absent or
  equal to start, emit only the start address; otherwise emit \<open>start-end\<close> joined by a
  literal hyphen'', with no validation of the addresses. The getter \<open>ipRange\<close> of the
  source reads the two fields \<open>start\<close> and \<open>end\<close>.
\<close>

record SasIPRange =
  start :: string
  end' :: "string option"

definition ipRangeToString :: "SasIPRange \<Rightarrow> string" where
  "ipRangeToString ipRange =
     (case end' ipRange of
        None \<Rightarrow> start ipRange
      | Some e \<Rightarrow> if e = start ipRange then start ipRange else start ipRange @ ''-'' @ e)"

section \<open>SAS query parameters\<close>

text \<open>
  Modelled from the spec: the interface \<open>UserDelegationKey\<close> of \<open>sas/models.ts\<close> is
  not among the sources. The constructor reads the six fields below, and the fields it
  assigns them to give their types; the spec lists them as ``signed object id, signed
  tenant id, signed key start/expiry, signed key service, signed key version''.
\<close>

record UserDelegationKey =
  signedObjectId :: string
  signedTenantId :: string
  signedStartsOn :: Date
  signedExpiresOn :: Date
  signedService :: string
  signedVersion :: string

text \<open>
  \<open>SasProtocol\<close> is the union of the string literals \<open>"https"\<close> and
  \<open>"https,http"\<close>; a value of it is that string.
\<close>

type_synonym SasProtocol = string

text \<open>
  The options bag of the constructor. Record fields share one name space, so a field of
  this record is written \<open>SasQueryParametersOptions.permissions\<close> where the class
  below has a field of the same name.
\<close>

record SasQueryParametersOptions =
  permissions :: "string option"
  tableName :: "string option"
  services :: "string option"
  resourceTypes :: "string option"
  protocol :: "SasProtocol option"
  startsOn :: "Date option"
  expiresOn :: "Date option"
  ipRange :: "SasIPRange option"
  identifier' :: "string option"
  resource :: "string option"
  userDelegationKey :: "UserDelegationKey option"
  preauthorizedAgentObjectId :: "string option"
  correlationId :: "string option"
  startPartitionKey :: "string option"
  startRowKey :: "string option"
  endPartitionKey :: "string option"
  endRowKey :: "string option"

text \<open>The default \<open>{}\<close> of the parameter \<open>options\<close>: every property is \<open>undefined\<close>.\<close>

definition emptyOptions :: SasQueryParametersOptions where
  "emptyOptions =
     \<lparr> permissions = None, tableName = None, services = None, resourceTypes = None,
       protocol = None, startsOn = None, expiresOn = None, ipRange = None,
       identifier' = None, resource = None, userDelegationKey = None,
       preauthorizedAgentObjectId = None, correlationId = None,
       startPartitionKey = None, startRowKey = None, endPartitionKey = None,
       endRowKey = None \<rparr>"

text \<open>
  The fields of the class, in the order of their declarations. (The field \<open>identifier\<close>
  is written \<open>identifier'\<close>, and the field \<open>end\<close> of a range \<open>end'\<close>: the plain words
  are reserved.)
\<close>

record SasQueryParameters =
  version :: "string option"
  tableName :: "string option"
  protocol :: "SasProtocol option"
  startsOn :: "Date option"
  expiresOn :: "Date option"
  permissions :: "string option"
  services :: "string option"
  resourceTypes :: "string option"
  identifier' :: "string option"
  signature :: "string option"
  ipRangeInner :: "SasIPRange option"
  signedOid :: "string option"
  signedTenantId :: "string option"
  signedStartsOn :: "Date option"
  signedExpiresOn :: "Date option"
  signedService :: "string option"
  signedVersion :: "string option"
  preauthorizedAgentObjectId :: "string option"
  correlationId :: "string option"
  startPartitionKey :: "string option"
  startRowKey :: "string option"
  endPartitionKey :: "string option"
  endRowKey :: "string option"

text \<open>The getter \<open>ipRange\<close>: a copy of the stored range, or \<open>undefined\<close>.\<close>

definition ipRange :: "SasQueryParameters \<Rightarrow> SasIPRange option" where
  "ipRange this =
     (case ipRangeInner this of
        Some inner \<Rightarrow> Some \<lparr> start = start inner, end' = end' inner \<rparr>
      | None \<Rightarrow> None)"

text \<open>
  The constructor. Before its body runs every field is \<open>undefined\<close>; the body assigns
  the fields in the order below, the last eight only \<open>if (options.userDelegationKey)\<close>
  (an object is always truthy). The parameter \<open>options\<close> is optional and defaults to
  \<open>{}\<close>. The option \<open>resource\<close> is never read.
\<close>

definition unassigned :: SasQueryParameters where
  "unassigned =
     \<lparr> version = None, tableName = None, protocol = None, startsOn = None,
       expiresOn = None, permissions = None, services = None, resourceTypes = None,
       identifier' = None, signature = None, ipRangeInner = None, signedOid = None,
       signedTenantId = None, signedStartsOn = None, signedExpiresOn = None,
       signedService = None, signedVersion = None, preauthorizedAgentObjectId = None,
       correlationId = None, startPartitionKey = None, startRowKey = None,
       endPartitionKey = None, endRowKey = None \<rparr>"

definition optionsOrDefault :: "SasQueryParametersOptions option \<Rightarrow> SasQueryParametersOptions" where
  "optionsOrDefault options' = (case options' of None \<Rightarrow> emptyOptions | Some given \<Rightarrow> given)"

definition constructor ::
  "string option \<Rightarrow> string option \<Rightarrow> SasQueryParametersOptions option \<Rightarrow> SasQueryParameters"
where
  "constructor version' signature' options' =
     (let options = optionsOrDefault options';
          this = unassigned
            \<lparr> version := version',
              signature := signature',
              permissions := SasQueryParametersOptions.permissions options,
              services := SasQueryParametersOptions.services options,
              resourceTypes := SasQueryParametersOptions.resourceTypes options,
              protocol := SasQueryParametersOptions.protocol options,
              startsOn := SasQueryParametersOptions.startsOn options,
              expiresOn := SasQueryParametersOptions.expiresOn options,
              ipRangeInner := SasQueryParametersOptions.ipRange options,
              identifier' := SasQueryParametersOptions.identifier' options,
              tableName := SasQueryParametersOptions.tableName options,
              endPartitionKey := SasQueryParametersOptions.endPartitionKey options,
              endRowKey := SasQueryParametersOptions.endRowKey options,
              startPartitionKey := SasQueryParametersOptions.startPartitionKey options,
              startRowKey := SasQueryParametersOptions.startRowKey options \<rparr>
      in case SasQueryParametersOptions.userDelegationKey options of
           Some key \<Rightarrow>
             this
               \<lparr> signedOid := Some (UserDelegationKey.signedObjectId key),
                 signedTenantId := Some (UserDelegationKey.signedTenantId key),
                 signedStartsOn := Some (UserDelegationKey.signedStartsOn key),
                 signedExpiresOn := Some (UserDelegationKey.signedExpiresOn key),
                 signedService := Some (UserDelegationKey.signedService key),
                 signedVersion := Some (UserDelegationKey.signedVersion key),
                 preauthorizedAgentObjectId :=
                   SasQueryParametersOptions.preauthorizedAgentObjectId options,
                 correlationId := SasQueryParametersOptions.correlationId options \<rparr>
         | None \<Rightarrow> this)"

text \<open>
  A \<open>new\<close> expression either throws or yields the object. The body of the constructor
  has no \<open>throw\<close> and calls nothing, so it always yields the object.
\<close>

datatype error = Error string

definition new_SasQueryParameters ::
  "string option \<Rightarrow> string option \<Rightarrow> SasQueryParametersOptions option
     \<Rightarrow> error + SasQueryParameters"
where
  "new_SasQueryParameters version' signature' options' =
     Inr (constructor version' signature' options')"

text \<open>
  \<open>tryAppendQueryParameter\<close> pushes onto the array \<open>queries\<close>; the model returns the
  array after the call. \<open>!value\<close> holds for \<open>undefined\<close> and for the empty string.
\<close>

definition tryAppendQueryParameter ::
  "string list \<Rightarrow> string \<Rightarrow> string option \<Rightarrow> string list"
where
  "tryAppendQueryParameter queries key value =
     (case value of
        None \<Rightarrow> queries
      | Some v \<Rightarrow>
          if v = [] then queries
          else
            (let key' = encodeURIComponent key;
                 value' = encodeURIComponent v
             in if length key' > 0 \<and> length value' > 0
                then queries @ [key' @ ''='' @ value']
                else queries))"

definition params :: "string list" where
  "params =
     [''sv'', ''ss'', ''srt'', ''spr'', ''st'', ''se'', ''sip'', ''si'', ''skoid'',
      ''sktid'', ''skt'', ''ske'', ''sks'', ''skv'', ''sr'', ''sp'', ''sig'', ''rscc'',
      ''rscd'', ''rsce'', ''rscl'', ''rsct'', ''saoid'', ''scid'', ''tn'', ''srk'',
      ''spk'', ''epk'', ''erk'']"

text \<open>
  The \<open>switch\<close> in the loop of \<open>toString\<close>, its cases in the order of the source. A
  name without a case (\<open>sr\<close>, \<open>rscc\<close>, \<open>rscd\<close>, \<open>rsce\<close>, \<open>rscl\<close>, \<open>rsct\<close>) leaves
  \<open>queries\<close> as it is. A \<open>Date\<close> object is always truthy.
\<close>

definition toString_switch ::
  "SasQueryParameters \<Rightarrow> string list \<Rightarrow> string \<Rightarrow> string list"
where
  "toString_switch this queries param =
     (if param = ''sv'' then tryAppendQueryParameter queries param (version this)
      else if param = ''ss'' then tryAppendQueryParameter queries param (services this)
      else if param = ''srt'' then
        tryAppendQueryParameter queries param (resourceTypes this)
      else if param = ''spr'' then tryAppendQueryParameter queries param (protocol this)
      else if param = ''st'' then
        tryAppendQueryParameter queries param
          (case startsOn this of Some d \<Rightarrow> Some (truncatedISO8061Date d) | None \<Rightarrow> None)
      else if param = ''se'' then
        tryAppendQueryParameter queries param
          (case expiresOn this of Some d \<Rightarrow> Some (truncatedISO8061Date d) | None \<Rightarrow> None)
      else if param = ''sip'' then
        tryAppendQueryParameter queries param
          (case ipRange this of Some r \<Rightarrow> Some (ipRangeToString r) | None \<Rightarrow> None)
      else if param = ''si'' then tryAppendQueryParameter queries param (identifier' this)
      else if param = ''skoid'' then tryAppendQueryParameter queries param (signedOid this)
      else if param = ''sktid'' then
        tryAppendQueryParameter queries param (signedTenantId this)
      else if param = ''skt'' then
        tryAppendQueryParameter queries param
          (case signedStartsOn this of
             Some d \<Rightarrow> Some (truncatedISO8061Date d) | None \<Rightarrow> None)
      else if param = ''ske'' then
        tryAppendQueryParameter queries param
          (case signedExpiresOn this of
             Some d \<Rightarrow> Some (truncatedISO8061Date d) | None \<Rightarrow> None)
      else if param = ''sks'' then
        tryAppendQueryParameter queries param (signedService this)
      else if param = ''skv'' then
        tryAppendQueryParameter queries param (signedVersion this)
      else if param = ''sp'' then tryAppendQueryParameter queries param (permissions this)
      else if param = ''sig'' then tryAppendQueryParameter queries param (signature this)
      else if param = ''saoid'' then
        tryAppendQueryParameter queries param (preauthorizedAgentObjectId this)
      else if param = ''scid'' then
        tryAppendQueryParameter queries param (correlationId this)
      else if param = ''tn'' then tryAppendQueryParameter queries param (tableName this)
      else if param = ''spk'' then
        tryAppendQueryParameter queries param (startPartitionKey this)
      else if param = ''srk'' then tryAppendQueryParameter queries param (startRowKey this)
      else if param = ''epk'' then
        tryAppendQueryParameter queries param (endPartitionKey this)
      else if param = ''erk'' then tryAppendQueryParameter queries param (endRowKey this)
      else queries)"

text \<open>
  The loop runs over \<open>params\<close> from the left, starting with the empty array; the result
  is the array joined by \<open>&\<close>.
\<close>

definition toString_queries :: "SasQueryParameters \<Rightarrow> string list" where
  "toString_queries this = foldl (toString_switch this) [] params"

definition toString :: "SasQueryParameters \<Rightarrow> string" where
  "toString this = join ''&'' (toString_queries this)"

subsection \<open>Reading a query string\<close>

text \<open>
  To state what a serialized string contains, it is read back the way a URL parser reads
  a query: cut at every \<open>&\<close> (the empty string has no pairs), the key of a pair being
  what precedes its first \<open>=\<close>.
\<close>

fun splitOn :: "char \<Rightarrow> string \<Rightarrow> string list" where
  "splitOn sep [] = [[]]"
| "splitOn sep (c # cs) =
     (if c = sep then [] # splitOn sep cs
      else (case splitOn sep cs of
              [] \<Rightarrow> [[c]]
            | piece # pieces \<Rightarrow> (c # piece) # pieces))"

definition pairsOf :: "string \<Rightarrow> string list" where
  "pairsOf s = (if s = [] then [] else splitOn (CHR ''&'') s)"

definition pairKey :: "string \<Rightarrow> string" where
  "pairKey pair = takeWhile (\<lambda>c. c \<noteq> CHR ''='') pair"

definition pairValue :: "string \<Rightarrow> string" where
  "pairValue pair = tl (dropWhile (\<lambda>c. c \<noteq> CHR ''='') pair)"

definition emittedKeys :: "string \<Rightarrow> string list" where
  "emittedKeys s = map pairKey (pairsOf s)"

subsection \<open>The serialization as the spec words it\<close>

text \<open>
  \<open>fieldValues\<close> lists, for each name that has a case in the \<open>switch\<close>, the value that
  case hands to \<open>tryAppendQueryParameter\<close>. \<open>specPairs\<close> is the serialization in the
  words of the spec: run through the fixed sequence of names, keep a name whose value is
  present and not empty after encoding, and write it as \<open>key=value\<close>, both encoded.
  \<open>queryPair\<close> is the contribution of one key: nothing, or one pair.
\<close>

definition dateValue :: "Date option \<Rightarrow> string option" where
  "dateValue date = map_option truncatedISO8061Date date"

definition fieldValues :: "SasQueryParameters \<Rightarrow> (string \<times> string option) list" where
  "fieldValues this =
     [(''sv'', version this), (''ss'', services this), (''srt'', resourceTypes this),
      (''spr'', protocol this), (''st'', dateValue (startsOn this)),
      (''se'', dateValue (expiresOn this)),
      (''sip'', map_option ipRangeToString (ipRange this)),
      (''si'', identifier' this), (''skoid'', signedOid this),
      (''sktid'', signedTenantId this), (''skt'', dateValue (signedStartsOn this)),
      (''ske'', dateValue (signedExpiresOn this)), (''sks'', signedService this),
      (''skv'', signedVersion this), (''sp'', permissions this),
      (''sig'', signature this), (''saoid'', preauthorizedAgentObjectId this),
      (''scid'', correlationId this), (''tn'', tableName this),
      (''spk'', startPartitionKey this), (''srk'', startRowKey this),
      (''epk'', endPartitionKey this), (''erk'', endRowKey this)]"

definition paramValue :: "SasQueryParameters \<Rightarrow> string \<Rightarrow> string option" where
  "paramValue this param =
     (case map_of (fieldValues this) param of Some value \<Rightarrow> value | None \<Rightarrow> None)"

definition queryPair :: "string \<Rightarrow> string option \<Rightarrow> string list" where
  "queryPair key value =
     (case value of
        None \<Rightarrow> []
      | Some v \<Rightarrow>
          if encodeURIComponent key = [] \<or> encodeURIComponent v = [] then []
          else [encodeURIComponent key @ ''='' @ encodeURIComponent v])"

definition specPair :: "SasQueryParameters \<Rightarrow> string \<Rightarrow> string option" where
  "specPair this param =
     (case paramValue this param of
        None \<Rightarrow> None
      | Some value \<Rightarrow>
          if encodeURIComponent value = [] then None
          else Some (encodeURIComponent param @ ''='' @ encodeURIComponent value))"

definition specPairs :: "SasQueryParameters \<Rightarrow> string list" where
  "specPairs this = List.map_filter (specPair this) params"

definition emits :: "SasQueryParameters \<Rightarrow> string \<Rightarrow> bool" where
  "emits this param \<longleftrightarrow> specPair this param \<noteq> None"

subsection \<open>A call of \<open>toString\<close> on a store\<close>

text \<open>
  \<open>toString\<close> creates the array \<open>queries\<close> and hands it to \<open>tryAppendQueryParameter\<close>,
  which pushes onto it: the array is shared by reference, and both methods can reach the
  fields of \<open>this\<close>. To state what a call leaves behind, the two methods are written
  once more as transformers of a store that holds the receiver and every array allocated
  so far, an array being addressed by its index. \<open>newArray\<close> is the array literal
  \<open>[]\<close>, \<open>push\<close> is \<open>Array.prototype.push\<close>; the only address ever used is the one
  \<open>newArray\<close> has just returned. The cases of the \<open>switch\<close> are those of the source
  again, in its order; a call returns its string and the store as the call leaves it.
\<close>

record store =
  receiver :: SasQueryParameters
  arrays :: "string list list"

definition newArray :: "store \<Rightarrow> nat \<times> store" where
  "newArray s = (length (arrays s), s\<lparr>arrays := arrays s @ [[]]\<rparr>)"

definition push :: "store \<Rightarrow> nat \<Rightarrow> string \<Rightarrow> store" where
  "push s array x = s\<lparr>arrays := (arrays s)[array := arrays s ! array @ [x]]\<rparr>"

definition tryAppendQueryParameter_on ::
  "store \<Rightarrow> nat \<Rightarrow> string \<Rightarrow> string option \<Rightarrow> store"
where
  "tryAppendQueryParameter_on s queries key value =
     (case value of
        None \<Rightarrow> s
      | Some v \<Rightarrow>
          if v = [] then s
          else
            (let key' = encodeURIComponent key;
                 value' = encodeURIComponent v
             in if length key' > 0 \<and> length value' > 0
                then push s queries (key' @ ''='' @ value')
                else s))"

definition toString_switch_on :: "store \<Rightarrow> nat \<Rightarrow> string \<Rightarrow> store"
where
  "toString_switch_on s queries param =
     (if param = ''sv'' then
        tryAppendQueryParameter_on s queries param (version (receiver s))
      else if param = ''ss'' then
        tryAppendQueryParameter_on s queries param (services (receiver s))
      else if param = ''srt'' then
        tryAppendQueryParameter_on s queries param (resourceTypes (receiver s))
      else if param = ''spr'' then
        tryAppendQueryParameter_on s queries param (protocol (receiver s))
      else if param = ''st'' then
        tryAppendQueryParameter_on s queries param
          (case startsOn (receiver s) of
             Some d \<Rightarrow> Some (truncatedISO8061Date d) | None \<Rightarrow> None)
      else if param = ''se'' then
        tryAppendQueryParameter_on s queries param
          (case expiresOn (receiver s) of
             Some d \<Rightarrow> Some (truncatedISO8061Date d) | None \<Rightarrow> None)
      else if param = ''sip'' then
        tryAppendQueryParameter_on s queries param
          (case ipRange (receiver s) of
             Some r \<Rightarrow> Some (ipRangeToString r) | None \<Rightarrow> None)
      else if param = ''si'' then
        tryAppendQueryParameter_on s queries param (identifier' (receiver s))
      else if param = ''skoid'' then
        tryAppendQueryParameter_on s queries param (signedOid (receiver s))
      else if param = ''sktid'' then
        tryAppendQueryParameter_on s queries param (signedTenantId (receiver s))
      else if param = ''skt'' then
        tryAppendQueryParameter_on s queries param
          (case signedStartsOn (receiver s) of
             Some d \<Rightarrow> Some (truncatedISO8061Date d) | None \<Rightarrow> None)
      else if param = ''ske'' then
        tryAppendQueryParameter_on s queries param
          (case signedExpiresOn (receiver s) of
             Some d \<Rightarrow> Some (truncatedISO8061Date d) | None \<Rightarrow> None)
      else if param = ''sks'' then
        tryAppendQueryParameter_on s queries param (signedService (receiver s))
      else if param = ''skv'' then
        tryAppendQueryParameter_on s queries param (signedVersion (receiver s))
      else if param = ''sp'' then
        tryAppendQueryParameter_on s queries param (permissions (receiver s))
      else if param = ''sig'' then
        tryAppendQueryParameter_on s queries param (signature (receiver s))
      else if param = ''saoid'' then
        tryAppendQueryParameter_on s queries param (preauthorizedAgentObjectId (receiver s))
      else if param = ''scid'' then
        tryAppendQueryParameter_on s queries param (correlationId (receiver s))
      else if param = ''tn'' then
        tryAppendQueryParameter_on s queries param (tableName (receiver s))
      else if param = ''spk'' then
        tryAppendQueryParameter_on s queries param (startPartitionKey (receiver s))
      else if param = ''srk'' then
        tryAppendQueryParameter_on s queries param (startRowKey (receiver s))
      else if param = ''epk'' then
        tryAppendQueryParameter_on s queries param (endPartitionKey (receiver s))
      else if param = ''erk'' then
        tryAppendQueryParameter_on s queries param (endRowKey (receiver s))
      else s)"

definition toString_on :: "store \<Rightarrow> string \<times> store" where
  "toString_on s =
     (case newArray s of
        (queries, s0) \<Rightarrow>
          (let s1 = foldl (\<lambda>s' param. toString_switch_on s' queries param) s0 params
           in (join ''&'' (arrays s1 ! queries), s1)))"

subsection \<open>The scenario of the spec\<close>

text \<open>
  The object of the scenario in the spec: version \<open>2023-01-01\<close>, signature \<open>SIGXYZ\<close>,
  table \<open>T1\<close>, permissions \<open>r\<close>, expiry 2024-01-01T00:00:00Z, which is 19723 days, that
  is 1704067200000 milliseconds, after the epoch.
\<close>

definition scenario :: SasQueryParameters where
  "scenario =
     constructor (Some ''2023-01-01'') (Some ''SIGXYZ'')
       (Some (emptyOptions
          \<lparr> SasQueryParametersOptions.tableName := Some ''T1'',
            SasQueryParametersOptions.permissions := Some ''r'',
            SasQueryParametersOptions.expiresOn := Some (Date 1704067200000) \<rparr>))"

text \<open>A user delegation key with every string filled in.\<close>

definition sampleKey :: UserDelegationKey where
  "sampleKey =
     \<lparr> signedObjectId = ''oid'', signedTenantId = ''tenant'', signedStartsOn = Date 0,
       signedExpiresOn = Date 86400000, signedService = ''t'',
       signedVersion = ''2023-01-01'' \<rparr>"

section \<open>Long-running-operation dispatcher\<close>

text \<open>
  Modelled from the spec: the response types of \<open>models.ts\<close> and the two poller
  constructors \<open>getFileValidationPoller\<close> and \<open>getTestRunCompletionPoller\<close> are not
  among the sources. The spec gives the input as ``an HTTP response object exposing at
  minimum the original request's URL'', and the source reads \<open>response.request.url\<close>.
  The two constructors are parameters of the model; each is asynchronous, so it yields a
  poller or fails. The result type of the dispatcher is the union of the two poller
  types.
\<close>

record PipelineRequest =
  url :: string

record HttpResponse =
  request :: PipelineRequest

datatype ('f, 't) poller = FileUploadAndValidatePoller 'f | TestRunCompletionPoller 't

definition isFileUpload :: "HttpResponse \<Rightarrow> bool" where
  "isFileUpload response = includes' (url (request response)) ''/files/''"

definition isTestRunCreation :: "HttpResponse \<Rightarrow> bool" where
  "isTestRunCreation response = includes' (url (request response)) ''/test-runs/''"

definition getLongRunningPoller ::
  "('c \<Rightarrow> HttpResponse \<Rightarrow> error + 'f) \<Rightarrow> ('c \<Rightarrow> HttpResponse \<Rightarrow> error + 't)
     \<Rightarrow> 'c \<Rightarrow> HttpResponse \<Rightarrow> error + ('f, 't) poller"
where
  "getLongRunningPoller getFileValidationPoller getTestRunCompletionPoller client
       initialResponse =
     (if isFileUpload initialResponse then
        map_sum id FileUploadAndValidatePoller
          (getFileValidationPoller client initialResponse)
      else if isTestRunCreation initialResponse then
        map_sum id TestRunCompletionPoller
          (getTestRunCompletionPoller client initialResponse)
      else Inl (Error ''The Operation is not a long running operation.''))"

section \<open>Properties of the built-ins\<close>

lemma hexDigit_mem: "hexDigit n \<in> set ''0123456789ABCDEF''"
  unfolding hexDigit_def by (rule nth_mem) simp

lemma hexDigit_not_sep: "hexDigit n \<noteq> CHR ''&''" "hexDigit n \<noteq> CHR ''=''"
  using hexDigit_mem [of n] by auto

lemma unreserved_not_sep: "unreserved c \<Longrightarrow> c \<noteq> CHR ''&'' \<and> c \<noteq> CHR ''=''"
  by (auto simp: unreserved_def)

lemma encodeChar_not_Nil: "encodeChar c \<noteq> []"
  by (simp add: encodeChar_def utf8Bytes_def percentByte_def)

lemma encodeChar_no_sep:
  "x \<in> set (encodeChar c) \<Longrightarrow> x \<noteq> CHR ''&'' \<and> x \<noteq> CHR ''=''"
  by (auto simp: encodeChar_def utf8Bytes_def percentByte_def hexDigit_not_sep
      dest: unreserved_not_sep split: if_splits)

lemma encodeURIComponent_Nil_iff: "encodeURIComponent s = [] \<longleftrightarrow> s = []"
  by (cases s) (simp_all add: encodeURIComponent_def encodeChar_not_Nil)

lemma encodeURIComponent_no_sep:
  "x \<in> set (encodeURIComponent s) \<Longrightarrow> x \<noteq> CHR ''&'' \<and> x \<noteq> CHR ''=''"
  by (auto simp: encodeURIComponent_def dest: encodeChar_no_sep)

lemma encodeURIComponent_plain:
  "\<forall>c\<in>set s. unreserved c \<Longrightarrow> encodeURIComponent s = s"
  by (induction s) (simp_all add: encodeURIComponent_def encodeChar_def)

lemma params_plain: "k \<in> set params \<Longrightarrow> \<forall>c\<in>set k. unreserved c"
  by (auto simp: params_def unreserved_def)

lemma params_encode: "k \<in> set params \<Longrightarrow> encodeURIComponent k = k"
  by (simp add: encodeURIComponent_plain params_plain)

lemma params_not_Nil: "k \<in> set params \<Longrightarrow> k \<noteq> []"
  by (auto simp: params_def)

lemma params_no_eq: "k \<in> set params \<Longrightarrow> CHR ''='' \<notin> set k"
  using params_plain unreserved_not_sep by blast

subsection \<open>Timestamps\<close>

lemma pad_numeral: "pad (numeral k) n = pad (pred_numeral k) (n div 10) @ [digit n]"
  by (simp only: numeral_eq_Suc pad.simps)

lemma pad_2: "pad 2 n = [digit (n div 10), digit n]"
  by (simp add: pad_numeral)

lemma pad_3: "pad 3 n = [digit (n div 100), digit (n div 10), digit n]"
  by (simp add: pad_numeral div_mult2_eq [symmetric])

lemma pad_4: "pad 4 n = [digit (n div 1000), digit (n div 100), digit (n div 10), digit n]"
  by (simp add: pad_numeral div_mult2_eq [symmetric])

lemma take_all_but: "length ys = n \<Longrightarrow> take (length (xs @ ys) - n) (xs @ ys) = xs"
  by simp

lemma truncatedISO8061Date_eq:
  "truncatedISO8061Date date = isoDate date @ ''T'' @ isoTime date @ ''Z''"
proof -
  define kept where "kept = isoDate date @ ''T'' @ isoTime date"
  define rest where "rest = ''.'' @ isoMillis date @ ''Z''"
  have len: "length rest = 5"
    by (simp add: rest_def isoMillis_def pad_3)
  have iso: "toISOString date = kept @ rest"
    by (simp add: toISOString_def kept_def rest_def)
  have "truncatedISO8061Date date = take (length (kept @ rest) - 5) (kept @ rest) @ ''Z''"
    by (simp only: truncatedISO8061Date_def Let_def iso)
  also have "\<dots> = kept @ ''Z''"
    by (simp only: take_all_but [OF len])
  finally show ?thesis by (simp add: kept_def)
qed

lemma truncatedISO8061Date_not_Nil: "truncatedISO8061Date date \<noteq> []"
  by (simp add: truncatedISO8061Date_eq)

section \<open>The loop of \<open>toString\<close>\<close>

lemma tryAppendQueryParameter_append:
  "tryAppendQueryParameter queries key value =
     queries @
       (case value of
          None \<Rightarrow> []
        | Some v \<Rightarrow>
            if encodeURIComponent key = [] \<or> encodeURIComponent v = [] then []
            else [encodeURIComponent key @ ''='' @ encodeURIComponent v])"
  by (auto simp: tryAppendQueryParameter_def Let_def encodeURIComponent_Nil_iff
      split: option.splits)

lemma dateValue_eq:
  "dateValue d = (case d of Some x \<Rightarrow> Some (truncatedISO8061Date x) | None \<Rightarrow> None)"
  by (simp add: dateValue_def split: option.splits)

lemma ipValue_eq:
  "map_option ipRangeToString r = (case r of Some x \<Rightarrow> Some (ipRangeToString x) | None \<Rightarrow> None)"
  by (simp split: option.splits)

lemma tryAppendQueryParameter_None:
  "tryAppendQueryParameter queries key None = queries"
  by (simp add: tryAppendQueryParameter_def)

lemma toString_switch_paramValue:
  "toString_switch this queries param =
     tryAppendQueryParameter queries param (paramValue this param)"
  unfolding toString_switch_def paramValue_def fieldValues_def
  by (simp add: dateValue_eq [symmetric] ipValue_eq [symmetric] tryAppendQueryParameter_None)

lemma toString_switch_specPair:
  "param \<noteq> [] \<Longrightarrow>
   toString_switch this queries param =
     queries @ (case specPair this param of None \<Rightarrow> [] | Some pair \<Rightarrow> [pair])"
  by (simp add: toString_switch_paramValue tryAppendQueryParameter_append specPair_def
      encodeURIComponent_Nil_iff split: option.splits)

lemma foldl_toString_switch:
  "\<forall>k\<in>set ks. k \<noteq> [] \<Longrightarrow>
   foldl (toString_switch this) acc ks = acc @ List.map_filter (specPair this) ks"
proof (induction ks arbitrary: acc)
  case Nil
  show ?case by (simp add: map_filter_simps)
next
  case (Cons k ks)
  then show ?case
    by (simp add: toString_switch_specPair map_filter_simps split: option.splits)
qed

lemma toString_queries_specPairs: "toString_queries this = specPairs this"
  unfolding toString_queries_def specPairs_def
  using foldl_toString_switch [of params this "[]"] by (simp add: params_not_Nil)

lemma splitOn_not_Nil: "splitOn sep s \<noteq> []"
  by (induction s) (auto split: list.splits)

lemma splitOn_no_sep: "sep \<notin> set s \<Longrightarrow> splitOn sep s = [s]"
  by (induction s) auto

lemma splitOn_append:
  "sep \<notin> set q \<Longrightarrow> splitOn sep (q @ sep # rest) = q # splitOn sep rest"
  by (induction q) (auto split: list.splits)

lemma splitOn_join:
  "qs \<noteq> [] \<Longrightarrow> \<forall>q\<in>set qs. sep \<notin> set q \<Longrightarrow> splitOn sep (join [sep] qs) = qs"
proof (induction "[sep]" qs rule: join.induct)
  case 1
  then show ?case by simp
next
  case (2 x)
  then show ?case by (simp add: splitOn_no_sep)
next
  case (3 x y ys)
  then show ?case by (simp add: splitOn_append)
qed

lemma join_Nil_iff: "\<forall>q\<in>set qs. q \<noteq> [] \<Longrightarrow> join sep qs = [] \<longleftrightarrow> qs = []"
  by (induction sep qs rule: join.induct) auto

lemma pairsOf_join:
  assumes "\<forall>q\<in>set qs. q \<noteq> [] \<and> CHR ''&'' \<notin> set q"
  shows "pairsOf (join ''&'' qs) = qs"
proof (cases "qs = []")
  case True
  then show ?thesis by (simp add: pairsOf_def)
next
  case False
  with assms have "join ''&'' qs \<noteq> []" by (simp add: join_Nil_iff)
  with assms False show ?thesis by (simp add: pairsOf_def splitOn_join)
qed

lemma specPair_shape:
  "specPair this k = Some pair \<Longrightarrow>
   \<exists>v. paramValue this k = Some v \<and> v \<noteq> [] \<and>
       pair = encodeURIComponent k @ ''='' @ encodeURIComponent v"
  by (auto simp: specPair_def encodeURIComponent_Nil_iff split: option.splits if_splits)

lemma specPair_no_amp: "specPair this k = Some pair \<Longrightarrow> pair \<noteq> [] \<and> CHR ''&'' \<notin> set pair"
  by (auto dest!: specPair_shape dest: encodeURIComponent_no_sep)

lemma set_map_filter: "set (List.map_filter f xs) = {y. \<exists>x\<in>set xs. f x = Some y}"
  by (induction xs) (auto simp: map_filter_simps split: option.splits)

lemma specPairs_no_amp: "q \<in> set (specPairs this) \<Longrightarrow> q \<noteq> [] \<and> CHR ''&'' \<notin> set q"
  by (auto simp: specPairs_def set_map_filter dest: specPair_no_amp)

lemma pairsOf_toString: "pairsOf (toString this) = specPairs this"
  unfolding toString_def toString_queries_specPairs
  by (rule pairsOf_join) (simp add: specPairs_no_amp)

lemma pairKey_pair: "CHR ''='' \<notin> set k \<Longrightarrow> pairKey (k @ CHR ''='' # v) = k"
  by (induction k) (auto simp: pairKey_def)

lemma pairValue_pair: "CHR ''='' \<notin> set k \<Longrightarrow> pairValue (k @ CHR ''='' # v) = v"
  by (induction k) (auto simp: pairValue_def)

lemma specPair_key:
  "k \<in> set params \<Longrightarrow> specPair this k = Some pair \<Longrightarrow> pairKey pair = k"
  by (auto dest!: specPair_shape simp: params_encode params_no_eq pairKey_pair)

lemma map_pairKey_map_filter:
  "set ks \<subseteq> set params \<Longrightarrow>
   map pairKey (List.map_filter (specPair this) ks) = filter (emits this) ks"
  by (induction ks) (auto simp: map_filter_simps emits_def specPair_key split: option.splits)

lemma emittedKeys_toString: "emittedKeys (toString this) = filter (emits this) params"
  by (simp add: emittedKeys_def pairsOf_toString specPairs_def map_pairKey_map_filter)

lemma paramValue_simps:
  "paramValue this ''sv'' = version this"
  "paramValue this ''ss'' = services this"
  "paramValue this ''srt'' = resourceTypes this"
  "paramValue this ''spr'' = protocol this"
  "paramValue this ''st'' = dateValue (startsOn this)"
  "paramValue this ''se'' = dateValue (expiresOn this)"
  "paramValue this ''sip'' = map_option ipRangeToString (ipRange this)"
  "paramValue this ''si'' = identifier' this"
  "paramValue this ''skoid'' = signedOid this"
  "paramValue this ''sktid'' = signedTenantId this"
  "paramValue this ''skt'' = dateValue (signedStartsOn this)"
  "paramValue this ''ske'' = dateValue (signedExpiresOn this)"
  "paramValue this ''sks'' = signedService this"
  "paramValue this ''skv'' = signedVersion this"
  "paramValue this ''sr'' = None"
  "paramValue this ''sp'' = permissions this"
  "paramValue this ''sig'' = signature this"
  "paramValue this ''rscc'' = None"
  "paramValue this ''rscd'' = None"
  "paramValue this ''rsce'' = None"
  "paramValue this ''rscl'' = None"
  "paramValue this ''rsct'' = None"
  "paramValue this ''saoid'' = preauthorizedAgentObjectId this"
  "paramValue this ''scid'' = correlationId this"
  "paramValue this ''tn'' = tableName this"
  "paramValue this ''srk'' = startRowKey this"
  "paramValue this ''spk'' = startPartitionKey this"
  "paramValue this ''epk'' = endPartitionKey this"
  "paramValue this ''erk'' = endRowKey this"
  by (simp_all add: paramValue_def fieldValues_def)

lemma emits_iff:
  "emits this k \<longleftrightarrow> (\<exists>v. paramValue this k = Some v \<and> v \<noteq> [])"
  by (auto simp: emits_def specPair_def encodeURIComponent_Nil_iff split: option.splits)

lemma emitted_iff:
  "k \<in> set (emittedKeys (toString this)) \<longleftrightarrow>
     k \<in> set params \<and> (\<exists>v. paramValue this k = Some v \<and> v \<noteq> [])"
  by (auto simp: emittedKeys_toString emits_iff)

section \<open>The constructor\<close>

lemma constructor_fields:
  "version (constructor v s opts) = v"
  "signature (constructor v s opts) = s"
  "SasQueryParameters.permissions (constructor v s opts) = SasQueryParametersOptions.permissions (optionsOrDefault opts)"
  "SasQueryParameters.services (constructor v s opts) = SasQueryParametersOptions.services (optionsOrDefault opts)"
  "SasQueryParameters.resourceTypes (constructor v s opts) = SasQueryParametersOptions.resourceTypes (optionsOrDefault opts)"
  "SasQueryParameters.protocol (constructor v s opts) = SasQueryParametersOptions.protocol (optionsOrDefault opts)"
  "SasQueryParameters.startsOn (constructor v s opts) = SasQueryParametersOptions.startsOn (optionsOrDefault opts)"
  "SasQueryParameters.expiresOn (constructor v s opts) = SasQueryParametersOptions.expiresOn (optionsOrDefault opts)"
  "SasQueryParameters.identifier' (constructor v s opts) = SasQueryParametersOptions.identifier' (optionsOrDefault opts)"
  "SasQueryParameters.tableName (constructor v s opts) = SasQueryParametersOptions.tableName (optionsOrDefault opts)"
  "SasQueryParameters.endPartitionKey (constructor v s opts) = SasQueryParametersOptions.endPartitionKey (optionsOrDefault opts)"
  "SasQueryParameters.endRowKey (constructor v s opts) = SasQueryParametersOptions.endRowKey (optionsOrDefault opts)"
  "SasQueryParameters.startPartitionKey (constructor v s opts) = SasQueryParametersOptions.startPartitionKey (optionsOrDefault opts)"
  "SasQueryParameters.startRowKey (constructor v s opts) = SasQueryParametersOptions.startRowKey (optionsOrDefault opts)"
  "ipRangeInner (constructor v s opts) = SasQueryParametersOptions.ipRange (optionsOrDefault opts)"
  "signedOid (constructor v s opts) =
     map_option UserDelegationKey.signedObjectId (userDelegationKey (optionsOrDefault opts))"
  "SasQueryParameters.signedTenantId (constructor v s opts) =
     map_option UserDelegationKey.signedTenantId (userDelegationKey (optionsOrDefault opts))"
  "SasQueryParameters.signedStartsOn (constructor v s opts) =
     map_option UserDelegationKey.signedStartsOn (userDelegationKey (optionsOrDefault opts))"
  "SasQueryParameters.signedExpiresOn (constructor v s opts) =
     map_option UserDelegationKey.signedExpiresOn (userDelegationKey (optionsOrDefault opts))"
  "SasQueryParameters.signedService (constructor v s opts) =
     map_option UserDelegationKey.signedService (userDelegationKey (optionsOrDefault opts))"
  "SasQueryParameters.signedVersion (constructor v s opts) =
     map_option UserDelegationKey.signedVersion (userDelegationKey (optionsOrDefault opts))"
  "SasQueryParameters.preauthorizedAgentObjectId (constructor v s opts) =
     (case userDelegationKey (optionsOrDefault opts) of
        None \<Rightarrow> None
      | Some key \<Rightarrow> SasQueryParametersOptions.preauthorizedAgentObjectId (optionsOrDefault opts))"
  "SasQueryParameters.correlationId (constructor v s opts) =
     (case userDelegationKey (optionsOrDefault opts) of
        None \<Rightarrow> None
      | Some key \<Rightarrow> SasQueryParametersOptions.correlationId (optionsOrDefault opts))"
  by (simp_all add: constructor_def Let_def unassigned_def split: option.splits)

lemma ipRange_constructor:
  "ipRange (constructor v s opts) = SasQueryParametersOptions.ipRange (optionsOrDefault opts)"
  by (simp add: ipRange_def constructor_fields split: option.splits)

lemma optionsOrDefault_simps:
  "optionsOrDefault None = emptyOptions"
  "optionsOrDefault (Some given) = given"
  by (simp_all add: optionsOrDefault_def)


section \<open>What the serialized string contains\<close>

lemma tryAppendQueryParameter_queryPair:
  "tryAppendQueryParameter queries key value = queries @ queryPair key value"
  by (simp add: tryAppendQueryParameter_append queryPair_def)

lemma queryPair_None: "queryPair key None = []"
  by (simp add: queryPair_def)

lemma toString_queries_unfold:
  "toString_queries this =
     queryPair ''sv'' (version this) @
     queryPair ''ss'' (services this) @
     queryPair ''srt'' (resourceTypes this) @
     queryPair ''spr'' (protocol this) @
     queryPair ''st'' (dateValue (startsOn this)) @
     queryPair ''se'' (dateValue (expiresOn this)) @
     queryPair ''sip'' (map_option ipRangeToString (ipRange this)) @
     queryPair ''si'' (identifier' this) @
     queryPair ''skoid'' (signedOid this) @
     queryPair ''sktid'' (signedTenantId this) @
     queryPair ''skt'' (dateValue (signedStartsOn this)) @
     queryPair ''ske'' (dateValue (signedExpiresOn this)) @
     queryPair ''sks'' (signedService this) @
     queryPair ''skv'' (signedVersion this) @
     queryPair ''sp'' (permissions this) @
     queryPair ''sig'' (signature this) @
     queryPair ''saoid'' (preauthorizedAgentObjectId this) @
     queryPair ''scid'' (correlationId this) @
     queryPair ''tn'' (tableName this) @
     queryPair ''srk'' (startRowKey this) @
     queryPair ''spk'' (startPartitionKey this) @
     queryPair ''epk'' (endPartitionKey this) @
     queryPair ''erk'' (endRowKey this)"
  unfolding toString_queries_def params_def
  by (simp only: foldl.simps toString_switch_paramValue paramValue_simps
      tryAppendQueryParameter_queryPair queryPair_None append_Nil append_Nil2 append_assoc)

lemma isoDate_2024: "isoDate (Date 1704067200000) = ''2024-01-01''"
  apply (simp only: isoDate_def civilFromDays_def Let_def Date.sel)
  apply (simp add: isoYear_def digit_def pad_2 pad_4)
  done

lemma isoTime_2024: "isoTime (Date 1704067200000) = ''00:00:00''"
  apply (simp only: isoTime_def Let_def Date.sel)
  apply (simp add: digit_def pad_2)
  done

lemma truncatedISO8061Date_2024:
  "truncatedISO8061Date (Date 1704067200000) = ''2024-01-01T00:00:00Z''"
  by (simp add: truncatedISO8061Date_eq isoDate_2024 isoTime_2024)

lemma encodeChar_colon: "encodeChar (CHR '':'') = ''%3A''"
  by (simp add: encodeChar_def unreserved_def utf8Bytes_def percentByte_def hexDigit_def)

lemma encodeChar_unreserved: "unreserved c \<Longrightarrow> encodeChar c = [c]"
  by (simp add: encodeChar_def)

lemma encodeURIComponent_Cons:
  "encodeURIComponent (c # s) = encodeChar c @ encodeURIComponent s"
  "encodeURIComponent [] = []"
  by (simp_all add: encodeURIComponent_def)

lemma encode_date_2024:
  "encodeURIComponent ''2024-01-01T00:00:00Z'' = ''2024-01-01T00%3A00%3A00Z''"
  by (simp add: encodeURIComponent_Cons encodeChar_colon encodeChar_unreserved unreserved_def)

lemma queryPair_plain:
  "key \<noteq> [] \<Longrightarrow> v \<noteq> [] \<Longrightarrow> \<forall>c\<in>set key. unreserved c \<Longrightarrow>
   queryPair key (Some v) = [key @ ''='' @ encodeURIComponent v]"
  by (simp add: queryPair_def encodeURIComponent_plain encodeURIComponent_Nil_iff)

lemma present_iff:
  "(\<exists>v. paramValue this k = Some v \<and> v \<noteq> []) \<longleftrightarrow>
     paramValue this k \<noteq> None \<and> paramValue this k \<noteq> Some []"
  by (cases "paramValue this k") auto

lemma emits_present:
  "emits this = (\<lambda>k. paramValue this k \<noteq> None \<and> paramValue this k \<noteq> Some [])"
  by (rule ext) (simp add: emits_iff present_iff)

lemma emitted_present:
  "k \<in> set (emittedKeys (toString this)) \<longleftrightarrow>
     k \<in> set params \<and> paramValue this k \<noteq> None \<and> paramValue this k \<noteq> Some []"
  by (simp add: emitted_iff present_iff)

lemma distinct_params: "distinct params"
  by (simp add: params_def)

lemma hd_join:
  "qs \<noteq> [] \<Longrightarrow> \<forall>q\<in>set qs. q \<noteq> [] \<Longrightarrow> hd (join sep qs) = hd (hd qs)"
  by (induction sep qs rule: join.induct) auto

lemma last_join:
  "qs \<noteq> [] \<Longrightarrow> \<forall>q\<in>set qs. q \<noteq> [] \<Longrightarrow> last (join sep qs) = last (last qs)"
  by (induction sep qs rule: join.induct) (auto simp: join_Nil_iff)

lemma count_join:
  "\<forall>q\<in>set qs. c \<notin> set q \<Longrightarrow> count_list (join [c] qs) c = length qs - 1"
  by (induction "[c]" qs rule: join.induct) (auto simp: count_list_0_iff)

lemma specPairs_Nil_iff: "toString this = [] \<longleftrightarrow> specPairs this = []"
  using join_Nil_iff [of "specPairs this" "''&''"]
  by (simp add: toString_def toString_queries_specPairs specPairs_no_amp)

lemma toString_ends:
  assumes "toString this \<noteq> []"
  shows "hd (toString this) \<noteq> CHR ''&'' \<and> last (toString this) \<noteq> CHR ''&''"
proof -
  let ?qs = "specPairs this"
  have ne: "?qs \<noteq> []" using assms by (simp add: specPairs_Nil_iff)
  have all: "\<forall>q\<in>set ?qs. q \<noteq> []" by (simp add: specPairs_no_amp)
  have "hd ?qs \<in> set ?qs" "last ?qs \<in> set ?qs" using ne by simp_all
  then have "hd (hd ?qs) \<in> set (hd ?qs)" "CHR ''&'' \<notin> set (hd ?qs)"
    "last (last ?qs) \<in> set (last ?qs)" "CHR ''&'' \<notin> set (last ?qs)"
    using specPairs_no_amp by (simp_all add: specPairs_no_amp)
  then have "hd (hd ?qs) \<noteq> CHR ''&''" "last (last ?qs) \<noteq> CHR ''&''" by auto
  then show ?thesis
    by (simp add: toString_def toString_queries_specPairs hd_join [OF ne all] last_join [OF ne all])
qed

lemma toString_separators:
  "count_list (toString this) (CHR ''&'') = length (specPairs this) - 1"
  using count_join [of "specPairs this" "CHR ''&''"]
  by (simp add: toString_def toString_queries_specPairs specPairs_no_amp)

lemma pair_in_output:
  assumes "k \<in> set params" "paramValue this k = Some v" "v \<noteq> []"
  shows "k @ ''='' @ encodeURIComponent v \<in> set (pairsOf (toString this))"
proof -
  have "specPair this k = Some (k @ ''='' @ encodeURIComponent v)"
    using assms by (simp add: specPair_def encodeURIComponent_Nil_iff params_encode)
  with assms(1) show ?thesis
    by (auto simp: pairsOf_toString specPairs_def set_map_filter)
qed

lemma pairs_shape:
  assumes "pair \<in> set (pairsOf (toString this))"
  shows "\<exists>k\<in>set params. \<exists>v. paramValue this k = Some v \<and> v \<noteq> [] \<and>
           encodeURIComponent v \<noteq> [] \<and>
           pair = encodeURIComponent k @ ''='' @ encodeURIComponent v \<and>
           pairKey pair = k \<and> pairValue pair = encodeURIComponent v"
proof -
  from assms obtain k where k: "k \<in> set params" "specPair this k = Some pair"
    by (auto simp: pairsOf_toString specPairs_def set_map_filter)
  from k(2) obtain v where v: "paramValue this k = Some v" "v \<noteq> []"
    "pair = encodeURIComponent k @ ''='' @ encodeURIComponent v"
    by (auto dest: specPair_shape)
  have "pairKey pair = k" "pairValue pair = encodeURIComponent v"
    using k(1) v(3) by (simp_all add: params_encode params_no_eq pairKey_pair pairValue_pair)
  with k(1) v show ?thesis by (auto simp: encodeURIComponent_Nil_iff)
qed

subsection \<open>The scenario\<close>

lemma scenario_values:
  "version scenario = Some ''2023-01-01''"
  "SasQueryParameters.services scenario = None"
  "SasQueryParameters.resourceTypes scenario = None"
  "SasQueryParameters.protocol scenario = None"
  "dateValue (SasQueryParameters.startsOn scenario) = None"
  "dateValue (SasQueryParameters.expiresOn scenario) = Some ''2024-01-01T00:00:00Z''"
  "map_option ipRangeToString (ipRange scenario) = None"
  "SasQueryParameters.identifier' scenario = None"
  "signedOid scenario = None"
  "SasQueryParameters.signedTenantId scenario = None"
  "dateValue (SasQueryParameters.signedStartsOn scenario) = None"
  "dateValue (SasQueryParameters.signedExpiresOn scenario) = None"
  "SasQueryParameters.signedService scenario = None"
  "SasQueryParameters.signedVersion scenario = None"
  "SasQueryParameters.permissions scenario = Some ''r''"
  "signature scenario = Some ''SIGXYZ''"
  "SasQueryParameters.preauthorizedAgentObjectId scenario = None"
  "SasQueryParameters.correlationId scenario = None"
  "SasQueryParameters.tableName scenario = Some ''T1''"
  "SasQueryParameters.startRowKey scenario = None"
  "SasQueryParameters.startPartitionKey scenario = None"
  "SasQueryParameters.endPartitionKey scenario = None"
  "SasQueryParameters.endRowKey scenario = None"
  by (simp_all add: scenario_def constructor_fields ipRange_constructor optionsOrDefault_simps
      emptyOptions_def dateValue_def truncatedISO8061Date_2024)

lemma scenario_queries:
  "toString_queries scenario =
     [''sv=2023-01-01'', ''se=2024-01-01T00%3A00%3A00Z'', ''sp=r'', ''sig=SIGXYZ'', ''tn=T1'']"
  apply (simp only: toString_queries_unfold scenario_values queryPair_None append_Nil)
  apply (simp add: queryPair_plain unreserved_def encode_date_2024)
  apply (simp add: encodeURIComponent_Cons encodeChar_unreserved unreserved_def)
  done

lemma scenario_toString:
  "toString scenario = ''sv=2023-01-01&se=2024-01-01T00%3A00%3A00Z&sp=r&sig=SIGXYZ&tn=T1''"
  by (simp add: toString_def scenario_queries)

lemma scenario_pairs:
  "specPairs scenario =
     [''sv=2023-01-01'', ''se=2024-01-01T00%3A00%3A00Z'', ''sp=r'', ''sig=SIGXYZ'', ''tn=T1'']"
  using scenario_queries by (simp only: toString_queries_specPairs)

lemma params_mem:
  "''sv'' \<in> set params" "''ss'' \<in> set params" "''skoid'' \<in> set params"
  "''sktid'' \<in> set params" "''skt'' \<in> set params" "''ske'' \<in> set params"
  "''sks'' \<in> set params" "''skv'' \<in> set params" "''sig'' \<in> set params"
  "''saoid'' \<in> set params" "''scid'' \<in> set params" "''srk'' \<in> set params"
  "''spk'' \<in> set params" "''epk'' \<in> set params" "''erk'' \<in> set params"
  by (simp_all add: params_def)

lemma dateValue_simps:
  "dateValue None = None"
  "dateValue (Some d) = Some (truncatedISO8061Date d)"
  by (simp_all add: dateValue_def)

subsection \<open>The call on a store\<close>

lemma tryAppendQueryParameter_on_eq:
  "tryAppendQueryParameter_on s a key value =
     s\<lparr>arrays := (arrays s)[a := tryAppendQueryParameter (arrays s ! a) key value]\<rparr>"
  by (cases "value") (simp_all add: tryAppendQueryParameter_on_def tryAppendQueryParameter_def
      push_def Let_def)

lemma toString_switch_on_eq:
  "toString_switch_on s a param =
     s\<lparr>arrays := (arrays s)[a := toString_switch (receiver s) (arrays s ! a) param]\<rparr>"
  unfolding toString_switch_on_def toString_switch_def
  by (simp add: tryAppendQueryParameter_on_eq)

lemma foldl_toString_switch_on:
  "a < length (arrays s) \<Longrightarrow>
   foldl (\<lambda>s' param. toString_switch_on s' a param) s ps =
     s\<lparr>arrays := (arrays s)[a := foldl (toString_switch (receiver s)) (arrays s ! a) ps]\<rparr>"
proof (induction ps arbitrary: s)
  case Nil
  show ?case by simp
next
  case (Cons p ps)
  let ?s = "toString_switch_on s a p"
  have step: "?s = s\<lparr>arrays := (arrays s)[a := toString_switch (receiver s) (arrays s ! a) p]\<rparr>"
    by (rule toString_switch_on_eq)
  have len: "a < length (arrays ?s)"
    using Cons.prems by (simp add: step)
  have "foldl (\<lambda>s' param. toString_switch_on s' a param) s (p # ps) =
      foldl (\<lambda>s' param. toString_switch_on s' a param) ?s ps"
    by simp
  also have "\<dots> = ?s\<lparr>arrays := (arrays ?s)[a := foldl (toString_switch (receiver ?s)) (arrays ?s ! a) ps]\<rparr>"
    by (rule Cons.IH [OF len])
  also have "\<dots> = s\<lparr>arrays := (arrays s)[a := foldl (toString_switch (receiver s)) (arrays s ! a) (p # ps)]\<rparr>"
    using Cons.prems by (simp add: step)
  finally show ?case .
qed

lemma toString_on_eq:
  "toString_on s =
     (toString (receiver s), s\<lparr>arrays := arrays s @ [toString_queries (receiver s)]\<rparr>)"
proof -
  let ?s0 = "s\<lparr>arrays := arrays s @ [[]]\<rparr>"
  let ?a = "length (arrays s)"
  have "?a < length (arrays ?s0)" by simp
  then have loop: "foldl (\<lambda>s' param. toString_switch_on s' ?a param) ?s0 params =
      ?s0\<lparr>arrays := (arrays ?s0)[?a := foldl (toString_switch (receiver ?s0)) (arrays ?s0 ! ?a) params]\<rparr>"
    by (rule foldl_toString_switch_on)
  show ?thesis
    by (simp add: toString_on_def newArray_def loop Let_def toString_def toString_queries_def)
qed

section \<open>The claims\<close>

subsection \<open>Canonical serialization\<close>

text \<open>
  C1. For every object, the keys of the pairs in the result of \<open>toString\<close>, read from
  left to right, are the fixed sequence \<open>sv, ss, srt, spr, st, se, sip, si, skoid, sktid,
  skt, ske, sks, skv, sr, sp, sig, rscc, rscd, rsce, rscl, rsct, saoid, scid, tn, srk,
  spk, epk, erk\<close> restricted to the keys whose value is present (neither \<open>undefined\<close> nor
  empty): a subsequence of the fixed sequence, no key twice, none out of order.
\<close>

theorem toString_key_order:
  "emittedKeys (toString this) =
     filter (\<lambda>k. paramValue this k \<noteq> None \<and> paramValue this k \<noteq> Some []) params \<and>
   params =
     [''sv'', ''ss'', ''srt'', ''spr'', ''st'', ''se'', ''sip'', ''si'', ''skoid'',
      ''sktid'', ''skt'', ''ske'', ''sks'', ''skv'', ''sr'', ''sp'', ''sig'', ''rscc'',
      ''rscd'', ''rsce'', ''rscl'', ''rsct'', ''saoid'', ''scid'', ''tn'', ''srk'',
      ''spk'', ''epk'', ''erk''] \<and>
   subseq (emittedKeys (toString this)) params \<and>
   distinct (emittedKeys (toString this))"
proof -
  have keys: "emittedKeys (toString this) = filter (emits this) params"
    by (rule emittedKeys_toString)
  have "subseq (filter (emits this) params) params"
    by (rule subseq_filter_left)
  moreover have "distinct (filter (emits this) params)"
    by (simp add: distinct_params)
  ultimately show ?thesis
    using keys by (simp add: emits_present) (simp add: params_def)
qed

theorem toString_key_order_witness:
  "emittedKeys (toString scenario) = [''sv'', ''se'', ''sp'', ''sig'', ''tn''] \<and>
   subseq [''sv'', ''se'', ''sp'', ''sig'', ''tn''] params"
proof -
  note order = toString_key_order [of scenario]
  have present:
    "filter (\<lambda>k. paramValue scenario k \<noteq> None \<and> paramValue scenario k \<noteq> Some []) params =
       [''sv'', ''se'', ''sp'', ''sig'', ''tn'']"
    unfolding params_def by (simp add: paramValue_simps scenario_values)
  have keys: "emittedKeys (toString scenario) = [''sv'', ''se'', ''sp'', ''sig'', ''tn'']"
    using order [THEN conjunct1] by (simp only: present)
  have "subseq (emittedKeys (toString scenario)) params"
    using order [THEN conjunct2, THEN conjunct2, THEN conjunct1] .
  with keys show ?thesis by (simp only:)
qed

text \<open>
  C2. For every object, \<open>toString\<close> writes a field as \<open>key=value\<close>, both
  percent-encoded, only if the value is present and not empty after encoding; an absent
  or empty field gives no pair at all. The pairs are joined by single \<open>&\<close>: reading the
  string back at the \<open>&\<close> gives exactly the pairs, none of them empty, there is one
  \<open>&\<close> fewer than there are pairs, and the string neither starts nor ends with \<open>&\<close>.
\<close>

theorem toString_pairs:
  "toString this = join ''&'' (specPairs this) \<and>
   pairsOf (toString this) = specPairs this \<and>
   (\<forall>pair\<in>set (pairsOf (toString this)).
      \<exists>k\<in>set params. \<exists>v.
        paramValue this k = Some v \<and> v \<noteq> [] \<and> encodeURIComponent v \<noteq> [] \<and>
        pair = encodeURIComponent k @ ''='' @ encodeURIComponent v \<and>
        pairKey pair = k \<and> pairValue pair = encodeURIComponent v) \<and>
   (\<forall>k\<in>set params.
      paramValue this k = None \<or> paramValue this k = Some [] \<longrightarrow>
        k \<notin> set (emittedKeys (toString this))) \<and>
   (\<forall>k\<in>set params. \<forall>v.
      paramValue this k = Some v \<and> v \<noteq> [] \<longrightarrow>
        k @ ''='' @ encodeURIComponent v \<in> set (pairsOf (toString this))) \<and>
   [] \<notin> set (pairsOf (toString this)) \<and>
   count_list (toString this) (CHR ''&'') = length (pairsOf (toString this)) - 1 \<and>
   (toString this \<noteq> [] \<longrightarrow>
      hd (toString this) \<noteq> CHR ''&'' \<and> last (toString this) \<noteq> CHR ''&'')"
proof (intro conjI)
  show "toString this = join ''&'' (specPairs this)"
    by (simp add: toString_def toString_queries_specPairs)
  show "pairsOf (toString this) = specPairs this"
    by (rule pairsOf_toString)
  show "\<forall>pair\<in>set (pairsOf (toString this)).
      \<exists>k\<in>set params. \<exists>v.
        paramValue this k = Some v \<and> v \<noteq> [] \<and> encodeURIComponent v \<noteq> [] \<and>
        pair = encodeURIComponent k @ ''='' @ encodeURIComponent v \<and>
        pairKey pair = k \<and> pairValue pair = encodeURIComponent v"
    using pairs_shape by blast
  show "\<forall>k\<in>set params.
      paramValue this k = None \<or> paramValue this k = Some [] \<longrightarrow>
        k \<notin> set (emittedKeys (toString this))"
    by (auto simp: emitted_present)
  show "\<forall>k\<in>set params. \<forall>v.
      paramValue this k = Some v \<and> v \<noteq> [] \<longrightarrow>
        k @ ''='' @ encodeURIComponent v \<in> set (pairsOf (toString this))"
    using pair_in_output by blast
  show "[] \<notin> set (pairsOf (toString this))"
    using specPairs_no_amp [of "[]" this] by (auto simp: pairsOf_toString)
  show "count_list (toString this) (CHR ''&'') = length (pairsOf (toString this)) - 1"
    by (simp add: toString_separators pairsOf_toString)
  show "toString this \<noteq> [] \<longrightarrow>
      hd (toString this) \<noteq> CHR ''&'' \<and> last (toString this) \<noteq> CHR ''&''"
    using toString_ends by blast
qed

theorem toString_pairs_witness:
  "''sv'' \<in> set params \<and> paramValue scenario ''sv'' = Some ''2023-01-01'' \<and>
   ''sv=2023-01-01'' \<in> set (pairsOf (toString scenario)) \<and>
   ''ss'' \<in> set params \<and> paramValue scenario ''ss'' = None \<and>
   ''ss'' \<notin> set (emittedKeys (toString scenario)) \<and>
   toString scenario \<noteq> [] \<and>
   hd (toString scenario) \<noteq> CHR ''&'' \<and> last (toString scenario) \<noteq> CHR ''&'' \<and>
   pairsOf (toString scenario) =
     [''sv=2023-01-01'', ''se=2024-01-01T00%3A00%3A00Z'', ''sp=r'', ''sig=SIGXYZ'', ''tn=T1'']"
proof -
  note pairs = toString_pairs [of scenario]
  note rest = pairs [THEN conjunct2, THEN conjunct2, THEN conjunct2]
  have sv: "paramValue scenario ''sv'' = Some ''2023-01-01''"
    and ss: "paramValue scenario ''ss'' = None"
    by (simp_all add: paramValue_simps scenario_values)
  have "''2023-01-01'' \<noteq> []" by simp
  with sv have "''sv'' @ ''='' @ encodeURIComponent ''2023-01-01'' \<in> set (pairsOf (toString scenario))"
    using rest [THEN conjunct2, THEN conjunct1] params_mem(1) by blast
  then have present: "''sv=2023-01-01'' \<in> set (pairsOf (toString scenario))"
    by (simp add: encodeURIComponent_Cons encodeChar_unreserved unreserved_def)
  have absent: "''ss'' \<notin> set (emittedKeys (toString scenario))"
    using rest [THEN conjunct1] params_mem(2) ss by blast
  have ne: "toString scenario \<noteq> []"
    by (simp add: scenario_toString)
  have ends: "hd (toString scenario) \<noteq> CHR ''&'' \<and> last (toString scenario) \<noteq> CHR ''&''"
    using rest [THEN conjunct2, THEN conjunct2, THEN conjunct2, THEN conjunct2] ne by blast
  have "pairsOf (toString scenario) = specPairs scenario"
    using pairs [THEN conjunct2, THEN conjunct1] .
  then have read: "pairsOf (toString scenario) =
     [''sv=2023-01-01'', ''se=2024-01-01T00%3A00%3A00Z'', ''sp=r'', ''sig=SIGXYZ'', ''tn=T1'']"
    by (simp only: scenario_pairs)
  show ?thesis
    using params_mem(1,2) sv ss present absent ne ends read by blast
qed

text \<open>
  C7. The object built from version \<open>2023-01-01\<close>, signature \<open>SIGXYZ\<close> and the options
  \<open>tableName: "T1"\<close>, \<open>permissions: "r"\<close>, \<open>expiresOn: 2024-01-01T00:00:00Z\<close> serializes to
  exactly \<open>sv=2023-01-01&se=2024-01-01T00%3A00%3A00Z&sp=r&sig=SIGXYZ&tn=T1\<close>.
\<close>

theorem scenario_output:
  "toString
     (constructor (Some ''2023-01-01'') (Some ''SIGXYZ'')
        (Some (emptyOptions
           \<lparr> SasQueryParametersOptions.tableName := Some ''T1'',
             SasQueryParametersOptions.permissions := Some ''r'',
             SasQueryParametersOptions.expiresOn := Some (Date 1704067200000) \<rparr>))) =
   ''sv=2023-01-01&se=2024-01-01T00%3A00%3A00Z&sp=r&sig=SIGXYZ&tn=T1''"
  using scenario_toString unfolding scenario_def .

theorem scenario_output_witness:
  "emittedKeys ''sv=2023-01-01&se=2024-01-01T00%3A00%3A00Z&sp=r&sig=SIGXYZ&tn=T1'' =
     [''sv'', ''se'', ''sp'', ''sig'', ''tn''] \<and>
   emittedKeys (toString
     (constructor (Some ''2023-01-01'') (Some ''SIGXYZ'')
        (Some (emptyOptions
           \<lparr> SasQueryParametersOptions.tableName := Some ''T1'',
             SasQueryParametersOptions.permissions := Some ''r'',
             SasQueryParametersOptions.expiresOn := Some (Date 1704067200000) \<rparr>)))) =
     [''sv'', ''se'', ''sp'', ''sig'', ''tn'']"
proof -
  have "emittedKeys ''sv=2023-01-01&se=2024-01-01T00%3A00%3A00Z&sp=r&sig=SIGXYZ&tn=T1'' =
     [''sv'', ''se'', ''sp'', ''sig'', ''tn'']"
    by (simp add: emittedKeys_def pairsOf_def pairKey_def)
  then show ?thesis
    by (simp only: scenario_output simp_thms)
qed

text \<open>
  C8. Calling \<open>toString\<close> twice on the same object returns the same string both times,
  and the calls leave the object as it was: on every store, the second call, run on the
  store the first one leaves behind, returns what the first returned; the receiver has
  the same fields after each call as before; the arrays that existed before are
  untouched; and the string is the one \<open>toString\<close> computes from the fields.
\<close>

theorem toString_twice:
  "toString_on s = (out1, s1) \<Longrightarrow> toString_on s1 = (out2, s2) \<Longrightarrow>
   out1 = out2 \<and> receiver s1 = receiver s \<and> receiver s2 = receiver s \<and>
   out1 = toString (receiver s) \<and>
   take (length (arrays s)) (arrays s2) = arrays s"
  by (auto simp: toString_on_eq)

theorem toString_twice_witness:
  "toString_on \<lparr> receiver = scenario, arrays = [] \<rparr> =
     (''sv=2023-01-01&se=2024-01-01T00%3A00%3A00Z&sp=r&sig=SIGXYZ&tn=T1'',
      \<lparr> receiver = scenario,
        arrays = [[''sv=2023-01-01'', ''se=2024-01-01T00%3A00%3A00Z'', ''sp=r'',
                   ''sig=SIGXYZ'', ''tn=T1'']] \<rparr>) \<and>
   fst (toString_on (snd (toString_on \<lparr> receiver = scenario, arrays = [] \<rparr>))) =
     ''sv=2023-01-01&se=2024-01-01T00%3A00%3A00Z&sp=r&sig=SIGXYZ&tn=T1'' \<and>
   receiver (snd (toString_on (snd (toString_on \<lparr> receiver = scenario, arrays = [] \<rparr>)))) =
     scenario"
proof -
  let ?s = "\<lparr> receiver = scenario, arrays = [] \<rparr>"
  have first: "toString_on ?s =
     (''sv=2023-01-01&se=2024-01-01T00%3A00%3A00Z&sp=r&sig=SIGXYZ&tn=T1'',
      \<lparr> receiver = scenario,
        arrays = [[''sv=2023-01-01'', ''se=2024-01-01T00%3A00%3A00Z'', ''sp=r'',
                   ''sig=SIGXYZ'', ''tn=T1'']] \<rparr>)"
    by (simp add: toString_on_eq scenario_toString scenario_queries)
  have call1: "toString_on ?s = (fst (toString_on ?s), snd (toString_on ?s))"
    by simp
  have call2: "toString_on (snd (toString_on ?s)) =
     (fst (toString_on (snd (toString_on ?s))), snd (toString_on (snd (toString_on ?s))))"
    by simp
  note twice = toString_twice [OF call1 call2]
  have same: "fst (toString_on ?s) = fst (toString_on (snd (toString_on ?s)))"
    using twice by (rule conjunct1)
  have kept: "receiver (snd (toString_on (snd (toString_on ?s)))) = receiver ?s"
    using twice [THEN conjunct2, THEN conjunct2] by (rule conjunct1)
  have "fst (toString_on ?s) = ''sv=2023-01-01&se=2024-01-01T00%3A00%3A00Z&sp=r&sig=SIGXYZ&tn=T1''"
    by (simp only: first fst_conv)
  with same kept first show ?thesis by simp
qed

subsection \<open>The constructor\<close>

text \<open>
  C4, as the claim states it, fails: with a user delegation key whose
  \<open>signedObjectId\<close> is the empty string, the key \<open>skoid\<close> is not in the output although a
  delegation key was supplied (\<open>tryAppendQueryParameter\<close> skips an empty value), while
  \<open>sktid\<close> is.
\<close>

theorem delegation_key_fields_counterexample:
  "''skoid'' \<notin> set (emittedKeys (toString
      (constructor (Some ''2023-01-01'') (Some ''SIG'')
        (Some (emptyOptions
           \<lparr> userDelegationKey :=
               Some \<lparr> signedObjectId = '''', signedTenantId = ''tenant'',
                      signedStartsOn = Date 0, signedExpiresOn = Date 86400000,
                      signedService = ''t'', signedVersion = ''2023-01-01'' \<rparr> \<rparr>))))) \<and>
   ''sktid'' \<in> set (emittedKeys (toString
      (constructor (Some ''2023-01-01'') (Some ''SIG'')
        (Some (emptyOptions
           \<lparr> userDelegationKey :=
               Some \<lparr> signedObjectId = '''', signedTenantId = ''tenant'',
                      signedStartsOn = Date 0, signedExpiresOn = Date 86400000,
                      signedService = ''t'', signedVersion = ''2023-01-01'' \<rparr> \<rparr>)))))"
  by (simp add: emitted_present params_mem paramValue_simps constructor_fields
      optionsOrDefault_simps)

text \<open>
  C4, amended. Without a \<open>userDelegationKey\<close> the six signed fields stay \<open>undefined\<close> and
  none of \<open>skoid, sktid, skt, ske, sks, skv\<close> is in the output. With one, all six fields
  are copied from it; \<open>skt\<close> and \<open>ske\<close> are then always in the output, and each of
  \<open>skoid, sktid, sks, skv\<close> is in the output exactly when the string copied for it is not
  empty.
\<close>

theorem delegation_key_fields:
  assumes "this = constructor v s opts"
    and "keys = set (emittedKeys (toString this))"
  shows
    "(userDelegationKey (optionsOrDefault opts) = None \<longrightarrow>
        signedOid this = None \<and> SasQueryParameters.signedTenantId this = None \<and>
        SasQueryParameters.signedStartsOn this = None \<and>
        SasQueryParameters.signedExpiresOn this = None \<and>
        SasQueryParameters.signedService this = None \<and>
        SasQueryParameters.signedVersion this = None \<and>
        ''skoid'' \<notin> keys \<and> ''sktid'' \<notin> keys \<and> ''skt'' \<notin> keys \<and>
        ''ske'' \<notin> keys \<and> ''sks'' \<notin> keys \<and> ''skv'' \<notin> keys) \<and>
     (\<forall>key. userDelegationKey (optionsOrDefault opts) = Some key \<longrightarrow>
        signedOid this = Some (signedObjectId key) \<and>
        SasQueryParameters.signedTenantId this = Some (UserDelegationKey.signedTenantId key) \<and>
        SasQueryParameters.signedStartsOn this = Some (UserDelegationKey.signedStartsOn key) \<and>
        SasQueryParameters.signedExpiresOn this = Some (UserDelegationKey.signedExpiresOn key) \<and>
        SasQueryParameters.signedService this = Some (UserDelegationKey.signedService key) \<and>
        SasQueryParameters.signedVersion this = Some (UserDelegationKey.signedVersion key) \<and>
        ''skt'' \<in> keys \<and> ''ske'' \<in> keys \<and>
        (''skoid'' \<in> keys \<longleftrightarrow> signedObjectId key \<noteq> []) \<and>
        (''sktid'' \<in> keys \<longleftrightarrow> UserDelegationKey.signedTenantId key \<noteq> []) \<and>
        (''sks'' \<in> keys \<longleftrightarrow> UserDelegationKey.signedService key \<noteq> []) \<and>
        (''skv'' \<in> keys \<longleftrightarrow> UserDelegationKey.signedVersion key \<noteq> []))"
  unfolding assms
  by (simp add: emitted_present params_mem paramValue_simps constructor_fields dateValue_simps
      truncatedISO8061Date_not_Nil)

theorem delegation_key_fields_witness:
  "userDelegationKey (optionsOrDefault (Some (emptyOptions \<lparr> userDelegationKey := Some sampleKey \<rparr>))) =
     Some sampleKey \<and>
   set [''skoid'', ''sktid'', ''skt'', ''ske'', ''sks'', ''skv''] \<subseteq>
     set (emittedKeys (toString (constructor (Some ''2023-01-01'') (Some ''SIG'')
       (Some (emptyOptions \<lparr> userDelegationKey := Some sampleKey \<rparr>))))) \<and>
   userDelegationKey (optionsOrDefault None) = None \<and>
   set [''skoid'', ''sktid'', ''skt'', ''ske'', ''sks'', ''skv''] \<inter>
     set (emittedKeys (toString (constructor (Some ''2023-01-01'') (Some ''SIG'') None))) = {}"
proof -
  let ?opts = "Some (emptyOptions \<lparr> userDelegationKey := Some sampleKey \<rparr>)"
  have given: "userDelegationKey (optionsOrDefault ?opts) = Some sampleKey"
    by (simp add: optionsOrDefault_simps)
  have none: "userDelegationKey (optionsOrDefault None) = None"
    by (simp add: optionsOrDefault_simps emptyOptions_def)
  have strings: "signedObjectId sampleKey \<noteq> []" "UserDelegationKey.signedTenantId sampleKey \<noteq> []"
    "UserDelegationKey.signedService sampleKey \<noteq> []" "UserDelegationKey.signedVersion sampleKey \<noteq> []"
    by (simp_all add: sampleKey_def)
  note with_key =
    delegation_key_fields [where v = "Some ''2023-01-01''" and s = "Some ''SIG''" and opts = ?opts, OF refl refl,
      THEN conjunct2, THEN spec, THEN mp, OF given]
  note without_key =
    delegation_key_fields [where v = "Some ''2023-01-01''" and s = "Some ''SIG''" and opts = None, OF refl refl,
      THEN conjunct1, THEN mp, OF none]
  have "set [''skoid'', ''sktid'', ''skt'', ''ske'', ''sks'', ''skv''] \<subseteq>
     set (emittedKeys (toString (constructor (Some ''2023-01-01'') (Some ''SIG'') ?opts)))"
    using with_key strings by simp
  moreover have "set [''skoid'', ''sktid'', ''skt'', ''ske'', ''sks'', ''skv''] \<inter>
     set (emittedKeys (toString (constructor (Some ''2023-01-01'') (Some ''SIG'') None))) = {}"
    using without_key by simp
  ultimately show ?thesis using given none by blast
qed

text \<open>
  C9, as the claim states it, fails for a row key that is the empty string: construction
  succeeds, but no \<open>srk\<close> pair is written.
\<close>

theorem lone_row_key_counterexample:
  "SasQueryParametersOptions.startRowKey
     (emptyOptions \<lparr> SasQueryParametersOptions.startRowKey := Some '''' \<rparr>) = Some '''' \<and>
   SasQueryParametersOptions.startPartitionKey
     (emptyOptions \<lparr> SasQueryParametersOptions.startRowKey := Some '''' \<rparr>) = None \<and>
   ''srk'' \<notin> set (emittedKeys (toString
      (constructor (Some ''2023-01-01'') (Some ''SIG'')
        (Some (emptyOptions \<lparr> SasQueryParametersOptions.startRowKey := Some '''' \<rparr>)))))"
  by (simp add: emitted_present params_mem paramValue_simps constructor_fields
      optionsOrDefault_simps emptyOptions_def)

text \<open>
  C9, amended. Constructing with a \<open>startRowKey\<close> (or \<open>endRowKey\<close>) that is not empty and
  without the matching \<open>startPartitionKey\<close> (or \<open>endPartitionKey\<close>) succeeds, and the
  lone row key is serialized: the pair \<open>srk=\<close>... (or \<open>erk=\<close>...) is in the output and
  no \<open>spk\<close> (or \<open>epk\<close>) pair is.
\<close>

theorem lone_row_key:
  assumes "this = constructor v s opts"
  shows
    "(\<forall>rowKey.
        SasQueryParametersOptions.startRowKey (optionsOrDefault opts) = Some rowKey \<and>
        rowKey \<noteq> [] \<and>
        SasQueryParametersOptions.startPartitionKey (optionsOrDefault opts) = None \<longrightarrow>
          new_SasQueryParameters v s opts = Inr this \<and>
          ''srk'' @ ''='' @ encodeURIComponent rowKey \<in> set (pairsOf (toString this)) \<and>
          ''srk'' \<in> set (emittedKeys (toString this)) \<and>
          ''spk'' \<notin> set (emittedKeys (toString this))) \<and>
     (\<forall>rowKey.
        SasQueryParametersOptions.endRowKey (optionsOrDefault opts) = Some rowKey \<and>
        rowKey \<noteq> [] \<and>
        SasQueryParametersOptions.endPartitionKey (optionsOrDefault opts) = None \<longrightarrow>
          new_SasQueryParameters v s opts = Inr this \<and>
          ''erk'' @ ''='' @ encodeURIComponent rowKey \<in> set (pairsOf (toString this)) \<and>
          ''erk'' \<in> set (emittedKeys (toString this)) \<and>
          ''epk'' \<notin> set (emittedKeys (toString this)))"
proof (intro conjI allI impI)
  fix rowKey
  assume a: "SasQueryParametersOptions.startRowKey (optionsOrDefault opts) = Some rowKey \<and>
        rowKey \<noteq> [] \<and>
        SasQueryParametersOptions.startPartitionKey (optionsOrDefault opts) = None"
  show "new_SasQueryParameters v s opts = Inr this"
    by (simp add: new_SasQueryParameters_def assms)
  have "paramValue this ''srk'' = Some rowKey"
    using a by (simp add: assms paramValue_simps constructor_fields)
  then show "''srk'' @ ''='' @ encodeURIComponent rowKey \<in> set (pairsOf (toString this))"
    using a pair_in_output [OF params_mem(12)] by blast
  show "''srk'' \<in> set (emittedKeys (toString this))"
    using a by (simp add: assms emitted_present params_mem paramValue_simps constructor_fields)
  show "''spk'' \<notin> set (emittedKeys (toString this))"
    using a by (simp add: assms emitted_present params_mem paramValue_simps constructor_fields)
next
  fix rowKey
  assume a: "SasQueryParametersOptions.endRowKey (optionsOrDefault opts) = Some rowKey \<and>
        rowKey \<noteq> [] \<and>
        SasQueryParametersOptions.endPartitionKey (optionsOrDefault opts) = None"
  show "new_SasQueryParameters v s opts = Inr this"
    by (simp add: new_SasQueryParameters_def assms)
  have "paramValue this ''erk'' = Some rowKey"
    using a by (simp add: assms paramValue_simps constructor_fields)
  then show "''erk'' @ ''='' @ encodeURIComponent rowKey \<in> set (pairsOf (toString this))"
    using a pair_in_output [OF params_mem(15)] by blast
  show "''erk'' \<in> set (emittedKeys (toString this))"
    using a by (simp add: assms emitted_present params_mem paramValue_simps constructor_fields)
  show "''epk'' \<notin> set (emittedKeys (toString this))"
    using a by (simp add: assms emitted_present params_mem paramValue_simps constructor_fields)
qed

theorem lone_row_key_witness:
  "SasQueryParametersOptions.startRowKey
     (optionsOrDefault (Some (emptyOptions \<lparr> SasQueryParametersOptions.startRowKey := Some ''row1'' \<rparr>))) =
     Some ''row1'' \<and>
   ''row1'' \<noteq> [] \<and>
   SasQueryParametersOptions.startPartitionKey
     (optionsOrDefault (Some (emptyOptions \<lparr> SasQueryParametersOptions.startRowKey := Some ''row1'' \<rparr>))) =
     None \<and>
   ''srk=row1'' \<in> set (pairsOf (toString (constructor (Some ''2023-01-01'') (Some ''SIG'')
      (Some (emptyOptions \<lparr> SasQueryParametersOptions.startRowKey := Some ''row1'' \<rparr>))))) \<and>
   ''spk'' \<notin> set (emittedKeys (toString (constructor (Some ''2023-01-01'') (Some ''SIG'')
      (Some (emptyOptions \<lparr> SasQueryParametersOptions.startRowKey := Some ''row1'' \<rparr>)))))"
proof -
  let ?opts = "Some (emptyOptions \<lparr> SasQueryParametersOptions.startRowKey := Some ''row1'' \<rparr>)"
  have hyp: "SasQueryParametersOptions.startRowKey (optionsOrDefault ?opts) = Some ''row1'' \<and>
      ''row1'' \<noteq> [] \<and>
      SasQueryParametersOptions.startPartitionKey (optionsOrDefault ?opts) = None"
    by (simp add: optionsOrDefault_simps emptyOptions_def)
  note row =
    lone_row_key [where v = "Some ''2023-01-01''" and s = "Some ''SIG''" and opts = ?opts, OF refl,
      THEN conjunct1, THEN spec, THEN mp, OF hyp]
  have "encodeURIComponent ''row1'' = ''row1''"
    by (simp add: encodeURIComponent_Cons encodeChar_unreserved unreserved_def)
  with row have "''srk=row1'' \<in> set (pairsOf (toString (constructor (Some ''2023-01-01'') (Some ''SIG'') ?opts)))"
    by simp
  with row hyp show ?thesis by blast
qed

text \<open>
  C10. Without a \<open>userDelegationKey\<close> the options \<open>preauthorizedAgentObjectId\<close> and
  \<open>correlationId\<close> are dropped even when they are given: the two fields of the object
  are \<open>undefined\<close>, and neither \<open>saoid\<close> nor \<open>scid\<close> is in the output.
\<close>

theorem agent_and_correlation_dropped:
  assumes "userDelegationKey (optionsOrDefault opts) = None"
  shows
    "SasQueryParameters.preauthorizedAgentObjectId (constructor v s opts) = None \<and>
     SasQueryParameters.correlationId (constructor v s opts) = None \<and>
     ''saoid'' \<notin> set (emittedKeys (toString (constructor v s opts))) \<and>
     ''scid'' \<notin> set (emittedKeys (toString (constructor v s opts)))"
  using assms
  by (simp add: emitted_present params_mem paramValue_simps constructor_fields)

theorem agent_and_correlation_dropped_witness:
  "SasQueryParametersOptions.preauthorizedAgentObjectId
     (emptyOptions \<lparr> SasQueryParametersOptions.preauthorizedAgentObjectId := Some ''agent'',
        SasQueryParametersOptions.correlationId := Some ''corr'' \<rparr>) = Some ''agent'' \<and>
   SasQueryParametersOptions.correlationId
     (emptyOptions \<lparr> SasQueryParametersOptions.preauthorizedAgentObjectId := Some ''agent'',
        SasQueryParametersOptions.correlationId := Some ''corr'' \<rparr>) = Some ''corr'' \<and>
   SasQueryParameters.preauthorizedAgentObjectId
     (constructor (Some ''2023-01-01'') (Some ''SIG'')
        (Some (emptyOptions \<lparr> SasQueryParametersOptions.preauthorizedAgentObjectId := Some ''agent'',
           SasQueryParametersOptions.correlationId := Some ''corr'' \<rparr>))) = None \<and>
   SasQueryParameters.correlationId
     (constructor (Some ''2023-01-01'') (Some ''SIG'')
        (Some (emptyOptions \<lparr> SasQueryParametersOptions.preauthorizedAgentObjectId := Some ''agent'',
           SasQueryParametersOptions.correlationId := Some ''corr'' \<rparr>))) = None \<and>
   ''saoid'' \<notin> set (emittedKeys (toString
     (constructor (Some ''2023-01-01'') (Some ''SIG'')
        (Some (emptyOptions \<lparr> SasQueryParametersOptions.preauthorizedAgentObjectId := Some ''agent'',
           SasQueryParametersOptions.correlationId := Some ''corr'' \<rparr>))))) \<and>
   ''scid'' \<notin> set (emittedKeys (toString
     (constructor (Some ''2023-01-01'') (Some ''SIG'')
        (Some (emptyOptions \<lparr> SasQueryParametersOptions.preauthorizedAgentObjectId := Some ''agent'',
           SasQueryParametersOptions.correlationId := Some ''corr'' \<rparr>)))))"
proof -
  let ?given = "emptyOptions \<lparr> SasQueryParametersOptions.preauthorizedAgentObjectId := Some ''agent'',
           SasQueryParametersOptions.correlationId := Some ''corr'' \<rparr>"
  have no_key: "userDelegationKey (optionsOrDefault (Some ?given)) = None"
    by (simp add: optionsOrDefault_simps emptyOptions_def)
  have "SasQueryParametersOptions.preauthorizedAgentObjectId ?given = Some ''agent''"
    "SasQueryParametersOptions.correlationId ?given = Some ''corr''"
    by simp_all
  then show ?thesis
    using agent_and_correlation_dropped [OF no_key, where v = "Some ''2023-01-01''" and s = "Some ''SIG''"]
    by blast
qed

subsection \<open>IP range codec\<close>

text \<open>
  C6. For every start/end pair the encoded value is the start string alone when the end
  is absent or equal to the start, and the start, a hyphen and the end otherwise; the
  strings are arbitrary, nothing checks that they are IP addresses. In particular
  \<open>encode(start, undefined) = start\<close>, \<open>encode(ip, ip) = ip\<close> and
  \<open>encode("10.0.0.1", "10.0.0.5") = "10.0.0.1-10.0.0.5"\<close>. The value is what
  \<open>toString\<close> hands over for the key \<open>sip\<close>.
\<close>

theorem ipRangeToString_rule:
  "ipRangeToString \<lparr> start = s, end' = None \<rparr> = s \<and>
   ipRangeToString \<lparr> start = s, end' = Some s \<rparr> = s \<and>
   (e \<noteq> s \<longrightarrow> ipRangeToString \<lparr> start = s, end' = Some e \<rparr> = s @ ''-'' @ e) \<and>
   ipRangeToString \<lparr> start = ''10.0.0.1'', end' = Some ''10.0.0.5'' \<rparr> = ''10.0.0.1-10.0.0.5'' \<and>
   paramValue (constructor v sig opts) ''sip'' =
     map_option ipRangeToString (SasQueryParametersOptions.ipRange (optionsOrDefault opts))"
  by (simp add: ipRangeToString_def paramValue_simps ipRange_constructor)

theorem ipRangeToString_rule_witness:
  "''not an address'' \<noteq> ''10.0.0.1'' \<and>
   ipRangeToString \<lparr> start = ''10.0.0.1'', end' = Some ''not an address'' \<rparr> =
     ''10.0.0.1-not an address''"
  using ipRangeToString_rule [of "''10.0.0.1''" "''not an address''" None None None]
  by simp

subsection \<open>Long-running-operation dispatcher\<close>

text \<open>
  C3. For every client and initial response, \<open>getLongRunningPoller\<close> gives the
  file-validation poller when the URL of the originating request contains \<open>/files/\<close>;
  otherwise, when the URL contains \<open>/test-runs/\<close>, the run-completion poller; otherwise
  it raises the error ``The Operation is not a long running operation.'' The checks are
  made in that order and the first match wins; no other poller is ever returned.
\<close>

theorem getLongRunningPoller_dispatch:
  "(includes' (url (request r)) ''/files/'' \<longrightarrow>
      getLongRunningPoller filePoller runPoller client r =
        map_sum id FileUploadAndValidatePoller (filePoller client r)) \<and>
   (\<not> includes' (url (request r)) ''/files/'' \<and> includes' (url (request r)) ''/test-runs/'' \<longrightarrow>
      getLongRunningPoller filePoller runPoller client r =
        map_sum id TestRunCompletionPoller (runPoller client r)) \<and>
   (\<not> includes' (url (request r)) ''/files/'' \<and> \<not> includes' (url (request r)) ''/test-runs/'' \<longrightarrow>
      getLongRunningPoller filePoller runPoller client r =
        Inl (Error ''The Operation is not a long running operation.''))"
  by (simp add: getLongRunningPoller_def isFileUpload_def isTestRunCreation_def)

theorem getLongRunningPoller_dispatch_witness:
  "includes' ''https://host/tests/t1/files/abc123'' ''/files/'' \<and>
   getLongRunningPoller (\<lambda>c r. Inr ''file poller'') (\<lambda>c r. Inr ''run poller'') ()
       \<lparr> request = \<lparr> url = ''https://host/tests/t1/files/abc123'' \<rparr> \<rparr> =
     Inr (FileUploadAndValidatePoller ''file poller'') \<and>
   \<not> includes' ''https://host/test-runs/run1'' ''/files/'' \<and>
   includes' ''https://host/test-runs/run1'' ''/test-runs/'' \<and>
   getLongRunningPoller (\<lambda>c r. Inr ''file poller'') (\<lambda>c r. Inr ''run poller'') ()
       \<lparr> request = \<lparr> url = ''https://host/test-runs/run1'' \<rparr> \<rparr> =
     Inr (TestRunCompletionPoller ''run poller'') \<and>
   \<not> includes' ''https://host/widgets/1'' ''/files/'' \<and>
   \<not> includes' ''https://host/widgets/1'' ''/test-runs/'' \<and>
   getLongRunningPoller (\<lambda>c r. Inr ''file poller'') (\<lambda>c r. Inr ''run poller'') ()
       \<lparr> request = \<lparr> url = ''https://host/widgets/1'' \<rparr> \<rparr> =
     Inl (Error ''The Operation is not a long running operation.'') \<and>
   includes' ''https://host/test-runs/run1/files/f1'' ''/files/'' \<and>
   includes' ''https://host/test-runs/run1/files/f1'' ''/test-runs/'' \<and>
   getLongRunningPoller (\<lambda>c r. Inr ''file poller'') (\<lambda>c r. Inr ''run poller'') ()
       \<lparr> request = \<lparr> url = ''https://host/test-runs/run1/files/f1'' \<rparr> \<rparr> =
     Inr (FileUploadAndValidatePoller ''file poller'')"
proof -
  let ?f = "\<lambda>(c::unit) (r::HttpResponse). Inr ''file poller'' :: error + string"
  let ?t = "\<lambda>(c::unit) (r::HttpResponse). Inr ''run poller'' :: error + string"
  have files: "includes' ''https://host/tests/t1/files/abc123'' ''/files/''"
    by simp
  have runs: "\<not> includes' ''https://host/test-runs/run1'' ''/files/''"
    "includes' ''https://host/test-runs/run1'' ''/test-runs/''"
    by simp_all
  have other: "\<not> includes' ''https://host/widgets/1'' ''/files/''"
    "\<not> includes' ''https://host/widgets/1'' ''/test-runs/''"
    by simp_all
  have both: "includes' ''https://host/test-runs/run1/files/f1'' ''/files/''"
    "includes' ''https://host/test-runs/run1/files/f1'' ''/test-runs/''"
    by simp_all
  show ?thesis
    using files runs other both
      getLongRunningPoller_dispatch
        [of "\<lparr> request = \<lparr> url = ''https://host/tests/t1/files/abc123'' \<rparr> \<rparr>" ?f ?t "()"]
      getLongRunningPoller_dispatch
        [of "\<lparr> request = \<lparr> url = ''https://host/test-runs/run1'' \<rparr> \<rparr>" ?f ?t "()"]
      getLongRunningPoller_dispatch
        [of "\<lparr> request = \<lparr> url = ''https://host/widgets/1'' \<rparr> \<rparr>" ?f ?t "()"]
      getLongRunningPoller_dispatch
        [of "\<lparr> request = \<lparr> url = ''https://host/test-runs/run1/files/f1'' \<rparr> \<rparr>" ?f ?t "()"]
    by simp
qed

end
